theory Spec2Isabelle
  imports Main "HOL-Library.AList" "HOL-Library.Word"
begin

section \<open>Data model\<close>

text \<open>
  Modelled from the spec: the Go declarations of the endpoint role, the endpoint type,
  the endpoint descriptor, the channel descriptor and the session configuration request
  are not among the sources (only the protobuf messages and the uses are). The roles are
  Unknown, Stub and Skeleton; the types are TCP, Unix, Socks, Stdio and Loop; the fields
  are those the handlers read (\<^verbatim>\<open>epd.Role\<close>, \<^verbatim>\<open>epd.Type\<close>, \<^verbatim>\<open>epd.Path\<close>,
  \<^verbatim>\<open>chd.Reverse\<close>, \<^verbatim>\<open>c.Version\<close>, \<^verbatim>\<open>c.ChannelDescriptors\<close>).
\<close>

datatype ChannelEndpointRole =
    ChannelEndpointRoleUnknown
  | ChannelEndpointRoleStub
  | ChannelEndpointRoleSkeleton

datatype ChannelEndpointType =
    ChannelEndpointTypeTCP
  | ChannelEndpointTypeUnix
  | ChannelEndpointTypeSocks
  | ChannelEndpointTypeStdio
  | ChannelEndpointTypeLoop

record ChannelEndpointDescriptor =
  Role :: ChannelEndpointRole
  Type :: ChannelEndpointType
  Path :: string

record ChannelDescriptor =
  Reverse :: bool
  StubDescriptor :: ChannelEndpointDescriptor
  SkeletonDescriptor :: ChannelEndpointDescriptor

record SessionConfigRequest =
  Version :: string
  ChannelDescriptors :: "ChannelDescriptor list"

text \<open>
  Modelled from the spec: a user is a name, a password and a list of compiled regular
  expressions (\<^verbatim>\<open>u.Name\<close>, \<^verbatim>\<open>u.Pass\<close>, \<^verbatim>\<open>u.Addrs\<close>). A compiled regular
  expression is kept as the predicate on strings that matching with it decides.
\<close>

type_synonym Regexp = "string \<Rightarrow> bool"

record User =
  Name :: string
  Pass :: string
  Addrs :: "Regexp list"

text \<open>
  Formatted text. The logger's \<^verbatim>\<open>Errorf\<close> and \<^verbatim>\<open>DebugErrorf\<close> build an error from
  a format and its arguments; the error is kept as that format and those arguments, and
  \<^verbatim>\<open>err.Error()\<close> is the same value. \<open>Str\<close> is a plain string (also an error of the
  environment, by its text), \<open>errors_New\<close> is \<^verbatim>\<open>errors.New\<close>, \<open>Sprintf\<close> is
  \<^verbatim>\<open>fmt.Sprintf\<close>.
\<close>

datatype msg =
    Str string
  | errors_New string
  | Sprintf string "msg list"
  | Errorf string "msg list"
  | DebugErrorf string "msg list"

type_synonym error = msg

text \<open>
  Modelled from the spec: the user index (\<^verbatim>\<open>UserIndex\<close>, keyed by user name) and the
  user-session map (\<^verbatim>\<open>Users\<close>, keyed by session id) are not among the sources. Both
  are maps from a string to a user with \<^verbatim>\<open>Get\<close>, \<^verbatim>\<open>Set\<close>, \<^verbatim>\<open>Del\<close> and
  \<^verbatim>\<open>Len\<close>; they are association lists here, and \<open>Len\<close> counts the keys.
\<close>

type_synonym Users = "(string \<times> User) list"

definition Get :: "Users \<Rightarrow> string \<Rightarrow> User option" where
  "Get t k = map_of t k"

definition Set :: "Users \<Rightarrow> string \<Rightarrow> User \<Rightarrow> Users" where
  "Set t k v = AList.update k v t"

definition Del :: "Users \<Rightarrow> string \<Rightarrow> Users" where
  "Del t k = AList.delete k t"

definition Len :: "Users \<Rightarrow> nat" where
  "Len t = length (remdups (map fst t))"

text \<open>
  Modelled from the spec: \<^verbatim>\<open>User.HasAccess\<close> is not among the sources. "A user has
  access to a route iff at least one regex matches the route's textual form."
\<close>

definition HasAccess :: "User \<Rightarrow> string \<Rightarrow> bool" where
  "HasAccess u addr = list_ex (\<lambda>r. r addr) (Addrs u)"

text \<open>
  The server value: the fields of \<^verbatim>\<open>Server\<close> the handlers read or write. A pointer
  field that is only tested against nil is a flag (\<open>True\<close>: not nil). \<open>sessCount\<close> is
  the \<^verbatim>\<open>int32\<close> that \<^verbatim>\<open>atomic.AddInt32\<close> increments; \<open>connStats\<close> is the counter
  behind \<^verbatim>\<open>connStats.New()\<close>, which numbers the accepted connections.
\<close>

record Server =
  users :: Users
  sessions :: Users
  reverseOk :: bool
  socksServer :: bool
  loopServer :: bool
  reverseProxy :: bool
  sessCount :: "32 word"
  connStats :: "32 word"

text \<open>
  What the handlers use of the shared package and of the standard library without its
  code being among the sources: two constants, the two decoders, the textual form of a
  channel descriptor, \<^verbatim>\<open>strings.ToLower\<close>, and the constructor of a skeleton endpoint
  (which returns an error or the endpoint).
\<close>

record LocalChannelEnv =
  IsServer :: bool
  GetLoopServer :: bool
  GetSocksServer :: bool

record chshare =
  ProtocolVersion :: string
  BuildVersion :: string
  DecodeConfig :: "string \<Rightarrow> error + SessionConfigRequest"
  json_Unmarshal :: "string \<Rightarrow> error + ChannelEndpointDescriptor"
  chd_String :: "ChannelDescriptor \<Rightarrow> string"
  strings_ToLower :: "string \<Rightarrow> string"
  NewLocalSkeletonChannelEndpoint ::
    "LocalChannelEnv \<Rightarrow> ChannelEndpointDescriptor \<Rightarrow> error option"

text \<open>The ssh library's values: connection metadata, a request, a channel open.\<close>

record ConnMetadata =
  conn_User :: string
  conn_SessionID :: string

record Request =
  req_Type :: string
  Payload :: string

text \<open>
  A channel open carries its extra data; \<open>accept_err\<close> is what \<^verbatim>\<open>ch.Accept()\<close>
  returns for it, \<open>wrap_err\<close> what \<^verbatim>\<open>NewSSHConn\<close> returns, and \<open>serve_err\<close> how the
  dial and the copy behind it end (each \<open>None\<close> for success).
\<close>

record NewChannel =
  ExtraData :: string
  accept_err :: "error option"
  wrap_err :: "error option"
  serve_err :: "error option"

datatype RejectionReason =
    Prohibited
  | ConnectionFailed
  | UnknownChannelType
  | ResourceShortage

text \<open>
  Effects are events, in program order. \<open>Go\<close> holds the events of a goroutine started
  at that point. Info-level log lines are events; debug-level lines are left out.
\<close>

datatype event =
    Infof string "msg list"
  | Write string
  | WriteHeader nat
  | ReverseProxy_ServeHTTP
  | Upgrade "error option"
  | NewServerConn "error option"
  | SSHConn_Close
  | SSHConn_Wait
  | Cancel
  | Close_done
  | Reply bool "msg option"
  | Proxy_Start nat ChannelDescriptor "error option"
  | Reject RejectionReason msg
  | Accept "error option"
  | DiscardRequests
  | ConnStats_Open
  | ConnStats_Close
  | Socks_ServeConn
  | HandleTCPStream string "error option"
  | Endpoint_Close
  | SSHChannel_Close
  | DialAndServe ChannelEndpointDescriptor "error option"
  | NilDereference
  | Go "event list"

section \<open>The password callback\<close>

definition authUser :: "Server \<Rightarrow> ConnMetadata \<Rightarrow> string \<Rightarrow> error option \<times> Server" where
  "authUser s c password =
     (if Len (users s) = 0 then (None, s)
      else
        let n = conn_User c in
        (case Get (users s) n of
           None \<Rightarrow> (Some (errors_New ''Invalid authentication for username: %s''), s)
         | Some user \<Rightarrow>
             if Pass user \<noteq> password
             then (Some (errors_New ''Invalid authentication for username: %s''), s)
             else (None, s\<lparr>sessions := Set (sessions s) (conn_SessionID c) user\<rparr>)))"

section \<open>The session environment\<close>

text \<open>
  What one connection brings from outside: the results of the websocket upgrade and of
  the SSH handshake (an error or the session id), what the wait for the first request
  yields, the result of starting the stub listener of route \<open>i\<close>, the result of sending
  the success reply and of \<^verbatim>\<open>sshConn.Wait()\<close>, and the requests and channel opens
  that arrive once the session is up.
  \<open>Expired e\<close>: the ten seconds passed, or the context ended, with the context's error
  \<open>e\<close>. \<open>Received None\<close>: the request stream was closed, so the receive gave nil.
\<close>

datatype recv = Expired error | Received "Request option"

record session_env =
  upgrade_err :: "error option"
  handshake :: "error + string"
  first_request :: recv
  start_err :: "nat \<Rightarrow> error option"
  reply_err :: "error option"
  wait_err :: "error option"
  later_requests :: "Request list"
  new_channels :: "NewChannel list"

section \<open>The handlers of the server (server.go)\<close>

definition Server_handleSSHRequests :: "Request list \<Rightarrow> event list" where
  "Server_handleSSHRequests reqs =
     map (\<lambda>r. if req_Type r = ''ping'' then Reply True None
               else Reply False (Some (Sprintf ''Unknown request type: %s'' [Str (req_Type r)])))
       reqs"

definition handleSocksStream :: "event list" where
  "handleSocksStream = [ConnStats_Open, Socks_ServeConn, ConnStats_Close]"

text \<open>One turn of the loop of \<^verbatim>\<open>handleSSHChannels\<close>, on one channel open.\<close>

definition Server_handleSSHChannel :: "chshare \<Rightarrow> Server \<Rightarrow> NewChannel \<Rightarrow> event list \<times> Server" where
  "Server_handleSSHChannel lib s ch =
     (case json_Unmarshal lib (ExtraData ch) of
        Inl err \<Rightarrow> ([Reject UnknownChannelType (Str ''Bad JSON ExtraData'')], s)
      | Inr epd \<Rightarrow>
          if Role epd \<noteq> ChannelEndpointRoleSkeleton
          then ([Reject Prohibited (Str ''Role must be skeleton'')], s)
          else if Type epd = ChannelEndpointTypeStdio
          then ([Reject Prohibited (Str ''Server-side STDIO not supported'')], s)
          else if Type epd = ChannelEndpointTypeLoop
          then ([Reject Prohibited (Str ''Loop channels not yet supported'')], s)
          else if Type epd = ChannelEndpointTypeUnix
          then ([Reject Prohibited (Str ''Unix domain sockets not yet supported'')], s)
          else
            let socks = (Type epd = ChannelEndpointTypeSocks) in
            if socks \<and> \<not> socksServer s
            then ([Reject Prohibited (Str ''SOCKS5 is not enabled on the server'')], s)
            else
              (case accept_err ch of
                 Some err \<Rightarrow> ([Accept (Some err)], s)
               | None \<Rightarrow>
                   ([Accept None, Go [DiscardRequests],
                     Go (if socks then handleSocksStream
                         else [HandleTCPStream (Path epd) (serve_err ch)])],
                    s\<lparr>connStats := connStats s + 1\<rparr>)))"

fun Server_handleSSHChannels :: "chshare \<Rightarrow> Server \<Rightarrow> NewChannel list \<Rightarrow> event list \<times> Server" where
  "Server_handleSSHChannels lib s [] = ([], s)"
| "Server_handleSSHChannels lib s (ch # chans) =
     (let (ev, s1) = Server_handleSSHChannel lib s ch;
          (evs, s2) = Server_handleSSHChannels lib s1 chans
      in (ev @ evs, s2))"

text \<open>
  The loop that starts the stub listener of every reverse route, with the route index;
  it stops at the first listener that fails to start and returns that route and error.
\<close>

fun startProxies ::
  "(nat \<Rightarrow> error option) \<Rightarrow> nat \<Rightarrow> ChannelDescriptor list
     \<Rightarrow> event list \<times> (ChannelDescriptor \<times> error) option" where
  "startProxies st i [] = ([], None)"
| "startProxies st i (chd # cds) =
     (if Reverse chd then
        (case st i of
           Some err \<Rightarrow> ([Proxy_Start i chd (Some err)], Some (chd, err))
         | None \<Rightarrow>
             (let (evs, r) = startProxies st (Suc i) cds
              in (Proxy_Start i chd None # evs, r)))
      else startProxies st (Suc i) cds)"

text \<open>
  The steps that \<^verbatim>\<open>handleWebsocket\<close> and \<^verbatim>\<open>runWithSSHConn\<close> have in common:
  taking the user of the session out of the user-session map, the log line for a client
  of another version (with its format), and the loop that looks for the first route the
  user has no access to.
\<close>

definition pullUser :: "Server \<Rightarrow> string \<Rightarrow> User option \<times> Server" where
  "pullUser s sid =
     (if Len (users s) > 0
      then (Get (sessions s) sid, s\<lparr>sessions := Del (sessions s) sid\<rparr>)
      else (None, s))"

definition versionLog :: "string \<Rightarrow> chshare \<Rightarrow> SessionConfigRequest \<Rightarrow> event list" where
  "versionLog f lib c =
     (if Version c \<noteq> BuildVersion lib
      then [Infof f [Str (if Version c = [] then ''<unknown>'' else Version c),
                     Str (BuildVersion lib)]]
      else [])"

definition deniedRoute :: "chshare \<Rightarrow> User option \<Rightarrow> ChannelDescriptor list \<Rightarrow> ChannelDescriptor option" where
  "deniedRoute lib user cds =
     (case user of
        None \<Rightarrow> None
      | Some u \<Rightarrow> find (\<lambda>chd. \<not> HasAccess u (chd_String lib chd)) cds)"

definition handleWebsocket :: "chshare \<Rightarrow> Server \<Rightarrow> session_env \<Rightarrow> event list \<times> Server" where
  "handleWebsocket lib s0 env =
     (let s = s0\<lparr>sessCount := sessCount s0 + 1\<rparr> in
      case upgrade_err env of
        Some err \<Rightarrow> ([Upgrade (Some err)], s)
      | None \<Rightarrow>
      (case handshake env of
        Inl err \<Rightarrow> ([Upgrade None, NewServerConn (Some err)], s)
      | Inr sid \<Rightarrow>
      (let (user, s1) = pullUser s sid;
           pre = [Upgrade None, NewServerConn None] in
       case first_request env of
         Expired e \<Rightarrow> (pre @ [SSHConn_Close], s1)
       | Received None \<Rightarrow> (pre @ [NilDereference], s1)
       | Received (Some r) \<Rightarrow>
           if req_Type r \<noteq> ''config''
           then (pre @ [Reply False (Some (Errorf ''expecting config request'' []))], s1)
           else
           (case DecodeConfig lib (Payload r) of
              Inl err \<Rightarrow> (pre @ [Reply False (Some (Errorf ''invalid config'' []))], s1)
            | Inr c \<Rightarrow>
              (let cds = ChannelDescriptors c;
                   pre1 = pre @ versionLog ''Client version (%s) differs from server version (%s)'' lib c in
               if find (\<lambda>chd. Reverse chd \<and> \<not> reverseOk s1) cds \<noteq> None
               then (pre1 @ [Reply False
                       (Some (Errorf ''Reverse port forwaring not enabled on server'' []))], s1)
               else
               (case deniedRoute lib user cds of
                  Some chd \<Rightarrow>
                    (pre1 @ [Reply False
                       (Some (Errorf ''access to '%s' denied'' [Str (chd_String lib chd)]))], s1)
                | None \<Rightarrow>
                  (case startProxies (start_err env) 0 cds of
                     (starts, Some (chd, err)) \<Rightarrow>
                       (pre1 @ starts @ [Reply False (Some (Errorf ''%s'' [err])), Cancel], s1)
                   | (starts, None) \<Rightarrow>
                       (let (chev, s2) = Server_handleSSHChannels lib s1 (new_channels env)
                        in (pre1 @ starts @
                            [Reply True None,
                             Go (Server_handleSSHRequests (later_requests env)),
                             Go chev, SSHConn_Wait, Cancel], s2)))))))))"

text \<open>
  An HTTP request: the two headers and the URL the handler reads. \<open>serveFallback\<close> is
  the part of \<^verbatim>\<open>handleClientHandler\<close> after the websocket test: the reverse proxy,
  the health and version checks, and the 404.
\<close>

record HTTPRequest =
  Header_Upgrade :: string
  Header_Sec_WebSocket_Protocol :: string
  URL_String :: string

definition strings_HasPrefix :: "string \<Rightarrow> string \<Rightarrow> bool" where
  "strings_HasPrefix s p = (take (length p) s = p)"

definition serveFallback :: "chshare \<Rightarrow> Server \<Rightarrow> HTTPRequest \<Rightarrow> event list" where
  "serveFallback lib s r =
     (if reverseProxy s then [ReverseProxy_ServeHTTP]
      else if URL_String r = ''/health'' then [Write ''OK\<newline>'']
      else if URL_String r = ''/version'' then [Write (BuildVersion lib)]
      else [WriteHeader 404, Write ''Not found''])"

text \<open>
  The format of the log line for a protocol mismatch,
  \<^verbatim>\<open>ignored client connection using protocol '%s', expected '%s'\<close>
  (a string literal cannot end in a quote character, so the last one is appended).
\<close>

definition ignored_format :: string where
  "ignored_format = ''ignored client connection using protocol '%s', expected '%s'' @ [CHR 0x27]"

definition handleClientHandler ::
  "chshare \<Rightarrow> Server \<Rightarrow> HTTPRequest \<Rightarrow> session_env \<Rightarrow> event list \<times> Server" where
  \<open>handleClientHandler lib s r env =
     (let upgrade = strings_ToLower lib (Header_Upgrade r);
          protocol = Header_Sec_WebSocket_Protocol r in
      if upgrade = ''websocket'' \<and> strings_HasPrefix protocol ''xevo-chisel-'' then
        (if protocol = ProtocolVersion lib then handleWebsocket lib s env
         else (Infof ignored_format
                 [Str protocol, Str (ProtocolVersion lib)] # serveFallback lib s r, s))
      else (serveFallback lib s r, s))\<close>

section \<open>The proxy session (server_session.go) and the SSH session\<close>

text \<open>
  \<^verbatim>\<open>handleSSHNewChannel\<close> has the same body in \<^verbatim>\<open>SSHSession\<close> and in
  \<^verbatim>\<open>ProxySSHSession\<close>; they differ in the environment handed to the endpoint
  constructor (\<^verbatim>\<open>s.localChannelEnv\<close> or the proxy session itself). It returns its
  events and the error it returns.
\<close>

definition SSHSession_handleSSHNewChannel ::
  "chshare \<Rightarrow> LocalChannelEnv \<Rightarrow> NewChannel \<Rightarrow> event list \<times> error option" where
  "SSHSession_handleSSHNewChannel lib lenv ch =
     (case json_Unmarshal lib (ExtraData ch) of
        Inl e \<Rightarrow>
          (let err = Errorf ''Badly formatted NewChannel request'' []
           in ([Reject UnknownChannelType err], Some err))
      | Inr epd \<Rightarrow>
          (case NewLocalSkeletonChannelEndpoint lib lenv epd of
             Some err \<Rightarrow> ([Reject Prohibited err], Some err)
           | None \<Rightarrow>
               (case accept_err ch of
                  Some err \<Rightarrow> ([Accept (Some err), Endpoint_Close], Some err)
                | None \<Rightarrow>
                    (case wrap_err ch of
                       Some err \<Rightarrow>
                         ([Accept None, Go [DiscardRequests], SSHChannel_Close, Endpoint_Close],
                          Some err)
                     | None \<Rightarrow>
                         ([Accept None, Go [DiscardRequests], DialAndServe epd (serve_err ch)],
                          serve_err ch)))))"

definition ProxySSHSession_env :: "Server \<Rightarrow> LocalChannelEnv" where
  "ProxySSHSession_env s =
     \<lparr>IsServer = True, GetLoopServer = loopServer s, GetSocksServer = socksServer s\<rparr>"

definition ProxySSHSession_handleSSHNewChannel ::
  "chshare \<Rightarrow> Server \<Rightarrow> NewChannel \<Rightarrow> event list \<times> error option" where
  "ProxySSHSession_handleSSHNewChannel lib s ch =
     SSHSession_handleSSHNewChannel lib (ProxySSHSession_env s) ch"

definition ProxySSHSession_handleSSHChannels :: "chshare \<Rightarrow> Server \<Rightarrow> NewChannel list \<Rightarrow> event list" where
  "ProxySSHSession_handleSSHChannels lib s chans =
     map (\<lambda>ch. Go (fst (ProxySSHSession_handleSSHNewChannel lib s ch))) chans"

definition ProxySSHSession_handleSSHRequests :: "Request list \<Rightarrow> event list" where
  "ProxySSHSession_handleSSHRequests reqs =
     map (\<lambda>r. if req_Type r = ''ping'' then Reply True None
               else Reply False (Some (DebugErrorf ''Unknown SSH request type: %s'' [Str (req_Type r)])))
       reqs"

text \<open>A function returns its error value, or does not return because it panicked.\<close>

datatype ret = Return "error option" | Panic

text \<open>
  \<^verbatim>\<open>failed\<close>: send the error reply and return the error; the deferred cancel of the
  sub-context runs on the way out.
\<close>

definition failed :: "event list \<Rightarrow> Server \<Rightarrow> error \<Rightarrow> event list \<times> ret \<times> Server" where
  "failed pre s err = (pre @ [Reply False (Some err), Cancel], Return (Some err), s)"

definition runWithSSHConn ::
  "chshare \<Rightarrow> Server \<Rightarrow> session_env \<Rightarrow> string \<Rightarrow> event list \<times> ret \<times> Server" where
  \<open>runWithSSHConn lib s env sid =
     (let (user, s1) = pullUser s sid in
      case first_request env of
        Expired e \<Rightarrow>
          ([Cancel],
           Return (Some (DebugErrorf ''receiveSSHRequest failed: %s''
                          [DebugErrorf ''SSH request not received: %s'' [e]])), s1)
      | Received None \<Rightarrow> ([NilDereference, Cancel], Panic, s1)
      | Received (Some r) \<Rightarrow>
          if req_Type r \<noteq> ''config''
          then failed [] s1 (DebugErrorf ''Expecting "config" request, got "%s"'' [Str (req_Type r)])
          else
          (case DecodeConfig lib (Payload r) of
             Inl e \<Rightarrow> failed [] s1 (DebugErrorf ''Invalid session config request encoding: %s'' [e])
           | Inr c \<Rightarrow>
             (let cds = ChannelDescriptors c;
                  pre = versionLog
                    ''WARNING: Chisel Client version (%s) differs from server version (%s)'' lib c in
              if find (\<lambda>chd. Reverse chd \<and> \<not> reverseOk s1) cds \<noteq> None
              then failed pre s1 (DebugErrorf ''Reverse port forwarding not enabled on server'' [])
              else
              (case deniedRoute lib user cds of
                 Some chd \<Rightarrow>
                   failed pre s1 (DebugErrorf ''Access to "%s" denied'' [Str (chd_String lib chd)])
               | None \<Rightarrow>
                 (case startProxies (start_err env) 0 cds of
                    (starts, Some (chd, err)) \<Rightarrow>
                      failed (pre @ starts) s1
                        (DebugErrorf ''Unable to start stub listener %s: %s''
                           [Str (chd_String lib chd), err])
                  | (starts, None) \<Rightarrow>
                      (case reply_err env of
                         Some e \<Rightarrow>
                           (pre @ starts @ [Reply True None, Cancel],
                            Return (Some (DebugErrorf
                              ''Failed to send SSH config success response: %s''
                              [DebugErrorf ''SSH repy send failed: %s'' [e]])), s1)
                       | None \<Rightarrow>
                           (pre @ starts @
                            [Reply True None,
                             Go (ProxySSHSession_handleSSHRequests (later_requests env)),
                             Go (ProxySSHSession_handleSSHChannels lib s1 (new_channels env)),
                             SSHConn_Wait, Cancel],
                            Return (wait_err env), s1)))))))\<close>

definition ProxySSHSession_Run :: "chshare \<Rightarrow> Server \<Rightarrow> session_env \<Rightarrow> event list \<times> ret \<times> Server" where
  "ProxySSHSession_Run lib s env =
     (case handshake env of
        Inl err \<Rightarrow> ([NewServerConn (Some err), Close_done], Return (Some err), s)
      | Inr sid \<Rightarrow>
          (case runWithSSHConn lib s env sid of
             (ev, Panic, s1) \<Rightarrow> (NewServerConn None # ev, Panic, s1)
           | (ev, Return err, s1) \<Rightarrow>
               (NewServerConn None # ev @ [SSHConn_Close, Close_done], Return err, s1)))"

section \<open>Reading a trace\<close>

text \<open>
  \<open>trace\<close> lists every event of a run, those of its goroutines included, each goroutine
  right after the point where it was started.
\<close>

fun all_events :: "event \<Rightarrow> event list" where
  "all_events (Go evs) = Go evs # concat (map all_events evs)"
| "all_events e = [e]"

definition trace :: "event list \<Rightarrow> event list" where
  "trace evs = concat (map all_events evs)"

fun is_Upgrade :: "event \<Rightarrow> bool" where
  "is_Upgrade (Upgrade e) = True"
| "is_Upgrade _ = False"

fun is_Reply :: "event \<Rightarrow> bool" where
  "is_Reply (Reply ok payload) = True"
| "is_Reply _ = False"

fun is_Accept :: "event \<Rightarrow> bool" where
  "is_Accept (Accept e) = True"
| "is_Accept _ = False"

fun is_Proxy_Start :: "event \<Rightarrow> bool" where
  "is_Proxy_Start (Proxy_Start i chd e) = True"
| "is_Proxy_Start _ = False"

fun is_response :: "event \<Rightarrow> bool" where
  "is_response (Write b) = True"
| "is_response (WriteHeader c) = True"
| "is_response _ = False"

section \<open>A concrete environment\<close>

text \<open>
  One instance of what the sources leave open, on which the definitions can be run: the
  protocol and build versions, decoders that know a few payloads, a textual form of a
  route, lower-casing of ASCII letters, and an endpoint constructor that refuses a
  descriptor whose role is not skeleton.
\<close>

definition route_9001 :: ChannelDescriptor where
  "route_9001 =
     \<lparr>Reverse = False,
      StubDescriptor = \<lparr>Role = ChannelEndpointRoleStub, Type = ChannelEndpointTypeTCP,
                         Path = ''127.0.0.1:34001''\<rparr>,
      SkeletonDescriptor = \<lparr>Role = ChannelEndpointRoleSkeleton, Type = ChannelEndpointTypeTCP,
                         Path = ''127.0.0.1:9001''\<rparr>\<rparr>"

definition route_9002 :: ChannelDescriptor where
  "route_9002 =
     \<lparr>Reverse = False,
      StubDescriptor = \<lparr>Role = ChannelEndpointRoleStub, Type = ChannelEndpointTypeTCP,
                         Path = ''127.0.0.1:34001''\<rparr>,
      SkeletonDescriptor = \<lparr>Role = ChannelEndpointRoleSkeleton, Type = ChannelEndpointTypeTCP,
                         Path = ''127.0.0.1:9002''\<rparr>\<rparr>"

definition route_reverse :: ChannelDescriptor where
  "route_reverse =
     \<lparr>Reverse = True,
      StubDescriptor = \<lparr>Role = ChannelEndpointRoleStub, Type = ChannelEndpointTypeTCP,
                         Path = ''0.0.0.0:34002''\<rparr>,
      SkeletonDescriptor = \<lparr>Role = ChannelEndpointRoleSkeleton, Type = ChannelEndpointTypeTCP,
                         Path = ''127.0.0.1:9001''\<rparr>\<rparr>"

definition example_DecodeConfig :: "string \<Rightarrow> error + SessionConfigRequest" where
  "example_DecodeConfig p =
     (if p = ''no routes'' then Inr \<lparr>Version = ''1.0'', ChannelDescriptors = []\<rparr>
      else if p = ''route 9001'' then Inr \<lparr>Version = ''1.0'', ChannelDescriptors = [route_9001]\<rparr>
      else if p = ''route 9002'' then Inr \<lparr>Version = ''1.0'', ChannelDescriptors = [route_9002]\<rparr>
      else if p = ''reverse route''
        then Inr \<lparr>Version = ''1.0'', ChannelDescriptors = [route_9001, route_reverse]\<rparr>
      else Inl (Str ''unexpected EOF''))"

definition example_Unmarshal :: "string \<Rightarrow> error + ChannelEndpointDescriptor" where
  "example_Unmarshal d =
     (if d = ''skeleton tcp 9002'' then Inr (SkeletonDescriptor route_9002)
      else if d = ''skeleton socks''
        then Inr \<lparr>Role = ChannelEndpointRoleSkeleton, Type = ChannelEndpointTypeSocks, Path = []\<rparr>
      else if d = ''skeleton stdio''
        then Inr \<lparr>Role = ChannelEndpointRoleSkeleton, Type = ChannelEndpointTypeStdio, Path = []\<rparr>
      else if d = ''stub tcp'' then Inr (StubDescriptor route_9002)
      else Inl (Str ''invalid character''))"

definition example_ToLower :: "string \<Rightarrow> string" where
  "example_ToLower s =
     map (\<lambda>c. case map_of (zip ''ABCDEFGHIJKLMNOPQRSTUVWXYZ'' ''abcdefghijklmnopqrstuvwxyz'') c of
                 None \<Rightarrow> c | Some l \<Rightarrow> l) s"

definition example_lib :: chshare where
  "example_lib =
     \<lparr>ProtocolVersion = ''xevo-chisel-v3'',
      BuildVersion = ''1.0'',
      DecodeConfig = example_DecodeConfig,
      json_Unmarshal = example_Unmarshal,
      chd_String = (\<lambda>chd. ''tcp:'' @ Path (SkeletonDescriptor chd)),
      strings_ToLower = example_ToLower,
      NewLocalSkeletonChannelEndpoint =
        (\<lambda>lenv epd. if Role epd \<noteq> ChannelEndpointRoleSkeleton
                      then Some (Str ''role must be skeleton'') else None)\<rparr>"

text \<open>The user of scenario S4: alice may use the routes that end in port 9001.\<close>

definition alice :: User where
  "alice = \<lparr>Name = ''alice'', Pass = ''secret'',
            Addrs = [\<lambda>addr. strings_HasPrefix addr ''tcp:'' \<and>
                            strings_HasPrefix (rev addr) (rev '':9001'')]\<rparr>"

definition example_server :: Server where
  "example_server =
     \<lparr>users = [(''alice'', alice)], sessions = [], reverseOk = False, socksServer = False,
      loopServer = True, reverseProxy = False, sessCount = 0, connStats = 0\<rparr>"

definition alice_conn :: ConnMetadata where
  "alice_conn = \<lparr>conn_User = ''alice'', conn_SessionID = ''sid-1''\<rparr>"

text \<open>
  A connection that is upgraded and shakes hands as session \<open>sid-1\<close>, sends the given
  first request and then the given channel opens.
\<close>

definition example_env :: "recv \<Rightarrow> NewChannel list \<Rightarrow> session_env" where
  "example_env first chans =
     \<lparr>upgrade_err = None, handshake = Inr ''sid-1'', first_request = first,
      start_err = (\<lambda>i. None), reply_err = None, wait_err = None,
      later_requests = [], new_channels = chans\<rparr>"

definition config_request :: "string \<Rightarrow> recv" where
  "config_request p = Received (Some \<lparr>req_Type = ''config'', Payload = p\<rparr>)"

definition channel_open :: "string \<Rightarrow> error option \<Rightarrow> NewChannel" where
  "channel_open d dial = \<lparr>ExtraData = d, accept_err = None, wrap_err = None, serve_err = dial\<rparr>"

text \<open>
  The request of scenario S6, and a health check sent to a server that has a reverse
  proxy.
\<close>

definition old_client :: HTTPRequest where
  "old_client =
     \<lparr>Header_Upgrade = ''WebSocket'', Header_Sec_WebSocket_Protocol = ''xevo-chisel-vOLD'',
      URL_String = ''/''\<rparr>"

definition health_request :: HTTPRequest where
  "health_request =
     \<lparr>Header_Upgrade = [], Header_Sec_WebSocket_Protocol = [], URL_String = ''/health''\<rparr>"

definition proxy_server :: Server where
  "proxy_server = example_server\<lparr>reverseProxy := True\<rparr>"

section \<open>The HTTP handler\<close>

lemma serveFallback_no_upgrade: "\<not> list_ex is_Upgrade (trace (serveFallback lib s r))"
  by (simp add: serveFallback_def trace_def)

text \<open>
  C8. A request that asks for a websocket upgrade with a protocol that has the chisel
  prefix but is not the expected protocol version is not upgraded and starts no session:
  the handler logs one info line, leaves the server value as it was, and answers like any
  other request; with no reverse proxy and a URL other than /health and /version the
  answer is status 404 with body "Not found".
\<close>

theorem version_mismatch_falls_through:
  assumes "strings_ToLower lib (Header_Upgrade r) = ''websocket''"
    and "strings_HasPrefix (Header_Sec_WebSocket_Protocol r) ''xevo-chisel-''"
    and "Header_Sec_WebSocket_Protocol r \<noteq> ProtocolVersion lib"
  shows \<open>handleClientHandler lib s r env =
           (Infof ignored_format
              [Str (Header_Sec_WebSocket_Protocol r), Str (ProtocolVersion lib)]
            # serveFallback lib s r, s)
       \<and> \<not> list_ex is_Upgrade (trace (fst (handleClientHandler lib s r env)))
       \<and> (\<not> reverseProxy s \<and> URL_String r \<noteq> ''/health'' \<and> URL_String r \<noteq> ''/version'' \<longrightarrow>
         fst (handleClientHandler lib s r env) =
           [Infof ignored_format
              [Str (Header_Sec_WebSocket_Protocol r), Str (ProtocolVersion lib)],
            WriteHeader 404, Write ''Not found''])\<close>
  using assms serveFallback_no_upgrade[of lib s r]
  by (simp add: handleClientHandler_def Let_def serveFallback_def trace_def)

theorem version_mismatch_falls_through_witness:
  \<open>strings_ToLower example_lib (Header_Upgrade old_client) = ''websocket''
   \<and> strings_HasPrefix (Header_Sec_WebSocket_Protocol old_client) ''xevo-chisel-''
   \<and> Header_Sec_WebSocket_Protocol old_client \<noteq> ProtocolVersion example_lib
   \<and> \<not> reverseProxy example_server \<and> URL_String old_client \<noteq> ''/health''
   \<and> URL_String old_client \<noteq> ''/version''
   \<and> handleClientHandler example_lib example_server old_client
        (example_env (config_request ''no routes'') []) =
       ([Infof ignored_format
              [Str ''xevo-chisel-vOLD'', Str ''xevo-chisel-v3''],
            WriteHeader 404, Write ''Not found''], example_server)\<close>
proof -
  have h1: "strings_ToLower example_lib (Header_Upgrade old_client) = ''websocket''"
    by (simp add: example_lib_def example_ToLower_def old_client_def)
  have h2: "strings_HasPrefix (Header_Sec_WebSocket_Protocol old_client) ''xevo-chisel-''"
    by (simp add: strings_HasPrefix_def old_client_def)
  have h3: "Header_Sec_WebSocket_Protocol old_client \<noteq> ProtocolVersion example_lib"
    by (simp add: example_lib_def old_client_def)
  have h4: "\<not> reverseProxy example_server \<and> URL_String old_client \<noteq> ''/health''
   \<and> URL_String old_client \<noteq> ''/version''"
    by (simp add: example_server_def old_client_def)
  from version_mismatch_falls_through[OF h1 h2 h3, of example_server "example_env (config_request ''no routes'') []"] h4
  have \<open>handleClientHandler example_lib example_server old_client
        (example_env (config_request ''no routes'') []) =
       ([Infof ignored_format
              [Str (Header_Sec_WebSocket_Protocol old_client), Str (ProtocolVersion example_lib)],
            WriteHeader 404, Write ''Not found''], example_server)\<close>
    by (metis prod.collapse fst_conv snd_conv)
  then show ?thesis using h1 h2 h3 h4 by (simp add: example_lib_def old_client_def)
qed

lemma startProxies_events:
  "startProxies st i cds = (evs, r) \<Longrightarrow> e \<in> set evs \<Longrightarrow> is_Proxy_Start e"
  by (induction cds arbitrary: i evs r) (auto split: option.splits prod.splits if_splits)

lemma startProxies_no_response:
  "startProxies st i cds = (evs, r) \<Longrightarrow> e \<in> set evs \<Longrightarrow> \<not> is_response e"
  by (drule (1) startProxies_events) (cases e; simp)

lemma versionLog_no_response: "e \<in> set (versionLog f lib c) \<Longrightarrow> \<not> is_response e"
  by (auto simp: versionLog_def split: if_splits)

lemma handleWebsocket_no_response:
  "\<not> list_ex is_response (fst (handleWebsocket lib s env))"
  by (auto simp: handleWebsocket_def Let_def pullUser_def list_ex_iff
        dest: startProxies_no_response versionLog_no_response
        split: option.splits sum.splits recv.splits prod.splits if_splits)

text \<open>
  C10. With a reverse proxy configured, a request that is not the matching chisel
  websocket upgrade is handed to the proxy, whatever its URL, and the handler never
  writes a response of its own (neither /health, /version nor the 404), whatever the
  request.
\<close>

theorem proxy_takes_every_other_request:
  assumes "reverseProxy s"
  shows "(\<not> (strings_ToLower lib (Header_Upgrade r) = ''websocket''
             \<and> strings_HasPrefix (Header_Sec_WebSocket_Protocol r) ''xevo-chisel-''
             \<and> Header_Sec_WebSocket_Protocol r = ProtocolVersion lib) \<longrightarrow>
          handleClientHandler lib s r env =
            ((if strings_ToLower lib (Header_Upgrade r) = ''websocket''
                 \<and> strings_HasPrefix (Header_Sec_WebSocket_Protocol r) ''xevo-chisel-''
              then [Infof ignored_format
                      [Str (Header_Sec_WebSocket_Protocol r), Str (ProtocolVersion lib)]]
              else []) @ [ReverseProxy_ServeHTTP], s))
      \<and> \<not> list_ex is_response (fst (handleClientHandler lib s r env))"
  using assms handleWebsocket_no_response[of lib s env]
  by (auto simp: handleClientHandler_def Let_def serveFallback_def)

theorem proxy_takes_every_other_request_witness:
  "reverseProxy proxy_server
   \<and> \<not> (strings_ToLower example_lib (Header_Upgrade health_request) = ''websocket''
        \<and> strings_HasPrefix (Header_Sec_WebSocket_Protocol health_request) ''xevo-chisel-''
        \<and> Header_Sec_WebSocket_Protocol health_request = ProtocolVersion example_lib)
   \<and> handleClientHandler example_lib proxy_server health_request
        (example_env (config_request ''no routes'') []) = ([ReverseProxy_ServeHTTP], proxy_server)"
proof -
  have h1: "reverseProxy proxy_server"
    by (simp add: proxy_server_def)
  have h2: "\<not> (strings_ToLower example_lib (Header_Upgrade health_request) = ''websocket''
        \<and> strings_HasPrefix (Header_Sec_WebSocket_Protocol health_request) ''xevo-chisel-''
        \<and> Header_Sec_WebSocket_Protocol health_request = ProtocolVersion example_lib)"
    by (simp add: health_request_def example_lib_def)
  have h3: "\<not> strings_HasPrefix (Header_Sec_WebSocket_Protocol health_request) ''xevo-chisel-''"
    by (simp add: health_request_def strings_HasPrefix_def)
  from proxy_takes_every_other_request[OF h1, of example_lib health_request
      "example_env (config_request ''no routes'') []"] h2 h3
  have "handleClientHandler example_lib proxy_server health_request
        (example_env (config_request ''no routes'') []) = ([ReverseProxy_ServeHTTP], proxy_server)"
    by simp
  with h1 h2 show ?thesis by blast
qed

section \<open>Inbound channel opens\<close>

text \<open>
  C5. A channel open whose extra data does not decode as an endpoint descriptor is
  rejected with reason UnknownChannelType (by the server's loop and by the session's
  handler); a decoded descriptor whose role is not skeleton is rejected with reason
  Prohibited; a descriptor of type stdio is rejected with reason Prohibited; and the
  session's handler rejects with reason Prohibited whatever the endpoint constructor
  refuses.
\<close>

theorem channel_open_validation:
  "(json_Unmarshal lib (ExtraData ch) = Inl e \<longrightarrow>
      Server_handleSSHChannel lib s ch =
        ([Reject UnknownChannelType (Str ''Bad JSON ExtraData'')], s)
      \<and> SSHSession_handleSSHNewChannel lib lenv ch =
        ([Reject UnknownChannelType (Errorf ''Badly formatted NewChannel request'' [])],
         Some (Errorf ''Badly formatted NewChannel request'' [])))
   \<and> (json_Unmarshal lib (ExtraData ch) = Inr epd \<and> Role epd \<noteq> ChannelEndpointRoleSkeleton \<longrightarrow>
      Server_handleSSHChannel lib s ch = ([Reject Prohibited (Str ''Role must be skeleton'')], s))
   \<and> (json_Unmarshal lib (ExtraData ch) = Inr epd \<and> Type epd = ChannelEndpointTypeStdio \<longrightarrow>
      Server_handleSSHChannel lib s ch =
        ([Reject Prohibited
            (Str (if Role epd \<noteq> ChannelEndpointRoleSkeleton then ''Role must be skeleton''
                  else ''Server-side STDIO not supported''))], s))
   \<and> (json_Unmarshal lib (ExtraData ch) = Inr epd
        \<and> NewLocalSkeletonChannelEndpoint lib lenv epd = Some err \<longrightarrow>
      SSHSession_handleSSHNewChannel lib lenv ch = ([Reject Prohibited err], Some err))"
  by (simp add: Server_handleSSHChannel_def SSHSession_handleSSHNewChannel_def Let_def)

theorem channel_open_validation_witness:
  "json_Unmarshal example_lib (ExtraData (channel_open ''not json'' None)) = Inl (Str ''invalid character'')
   \<and> Server_handleSSHChannel example_lib example_server (channel_open ''not json'' None) =
        ([Reject UnknownChannelType (Str ''Bad JSON ExtraData'')], example_server)
   \<and> json_Unmarshal example_lib (ExtraData (channel_open ''stub tcp'' None)) = Inr (StubDescriptor route_9002)
   \<and> Role (StubDescriptor route_9002) \<noteq> ChannelEndpointRoleSkeleton
   \<and> NewLocalSkeletonChannelEndpoint example_lib (ProxySSHSession_env example_server)
        (StubDescriptor route_9002) = Some (Str ''role must be skeleton'')
   \<and> Server_handleSSHChannel example_lib example_server (channel_open ''stub tcp'' None) =
        ([Reject Prohibited (Str ''Role must be skeleton'')], example_server)
   \<and> SSHSession_handleSSHNewChannel example_lib (ProxySSHSession_env example_server)
        (channel_open ''stub tcp'' None) =
        ([Reject Prohibited (Str ''role must be skeleton'')], Some (Str ''role must be skeleton''))
   \<and> json_Unmarshal example_lib (ExtraData (channel_open ''skeleton stdio'' None)) =
        Inr \<lparr>Role = ChannelEndpointRoleSkeleton, Type = ChannelEndpointTypeStdio, Path = []\<rparr>
   \<and> Server_handleSSHChannel example_lib example_server (channel_open ''skeleton stdio'' None) =
        ([Reject Prohibited (Str ''Server-side STDIO not supported'')], example_server)"
proof -
  let ?bad = "channel_open ''not json'' None"
  let ?stub = "channel_open ''stub tcp'' None"
  let ?stdio = "channel_open ''skeleton stdio'' None"
  let ?epd = "\<lparr>Role = ChannelEndpointRoleSkeleton, Type = ChannelEndpointTypeStdio, Path = []\<rparr>"
  have d1: "json_Unmarshal example_lib (ExtraData ?bad) = Inl (Str ''invalid character'')"
    by (simp add: example_lib_def example_Unmarshal_def channel_open_def)
  have d2: "json_Unmarshal example_lib (ExtraData ?stub) = Inr (StubDescriptor route_9002)"
    by (simp add: example_lib_def example_Unmarshal_def channel_open_def)
  have d3: "json_Unmarshal example_lib (ExtraData ?stdio) = Inr ?epd"
    by (simp add: example_lib_def example_Unmarshal_def channel_open_def)
  have r2: "Role (StubDescriptor route_9002) \<noteq> ChannelEndpointRoleSkeleton"
    by (simp add: route_9002_def)
  have n2: "NewLocalSkeletonChannelEndpoint example_lib (ProxySSHSession_env example_server)
        (StubDescriptor route_9002) = Some (Str ''role must be skeleton'')"
    by (simp add: example_lib_def route_9002_def)
  note t1 = channel_open_validation[of example_lib ?bad "Str ''invalid character''" example_server]
  note t2 = channel_open_validation[of example_lib ?stub _ example_server "ProxySSHSession_env example_server"
      "StubDescriptor route_9002" "Str ''role must be skeleton''"]
  note t3 = channel_open_validation[of example_lib ?stdio _ example_server _ ?epd]
  show ?thesis using d1 d2 d3 r2 n2 t1 t2 t3 by simp
qed

text \<open>
  C6. With SOCKS5 disabled, a channel open whose skeleton descriptor has type socks is
  rejected with reason Prohibited and the message "SOCKS5 is not enabled on the server";
  the loop goes on with the server value unchanged, so the channel opens after it are
  handled as if it had not come, and a TCP skeleton open that follows it is accepted.
\<close>

theorem socks_rejected_session_survives:
  assumes "\<not> socksServer s"
    and "json_Unmarshal lib (ExtraData ch) = Inr epd"
    and "Role epd = ChannelEndpointRoleSkeleton"
    and "Type epd = ChannelEndpointTypeSocks"
  shows "Server_handleSSHChannels lib s (ch # chans) =
           (Reject Prohibited (Str ''SOCKS5 is not enabled on the server'')
              # fst (Server_handleSSHChannels lib s chans),
            snd (Server_handleSSHChannels lib s chans))
       \<and> (json_Unmarshal lib (ExtraData ch2) = Inr epd2
            \<and> Role epd2 = ChannelEndpointRoleSkeleton \<and> Type epd2 = ChannelEndpointTypeTCP
            \<and> accept_err ch2 = None \<longrightarrow>
          Server_handleSSHChannels lib s [ch, ch2] =
            ([Reject Prohibited (Str ''SOCKS5 is not enabled on the server''),
              Accept None, Go [DiscardRequests],
              Go [HandleTCPStream (Path epd2) (serve_err ch2)]],
             s\<lparr>connStats := connStats s + 1\<rparr>))"
  using assms
  by (simp add: Server_handleSSHChannel_def Let_def split: prod.splits)

theorem socks_rejected_session_survives_witness:
  "\<not> socksServer example_server
   \<and> json_Unmarshal example_lib (ExtraData (channel_open ''skeleton socks'' None)) =
       Inr \<lparr>Role = ChannelEndpointRoleSkeleton, Type = ChannelEndpointTypeSocks, Path = []\<rparr>
   \<and> json_Unmarshal example_lib (ExtraData (channel_open ''skeleton tcp 9002'' None)) =
       Inr (SkeletonDescriptor route_9002)
   \<and> Role (SkeletonDescriptor route_9002) = ChannelEndpointRoleSkeleton
   \<and> Type (SkeletonDescriptor route_9002) = ChannelEndpointTypeTCP
   \<and> accept_err (channel_open ''skeleton tcp 9002'' None) = None
   \<and> Server_handleSSHChannels example_lib example_server
        [channel_open ''skeleton socks'' None, channel_open ''skeleton tcp 9002'' None] =
       ([Reject Prohibited (Str ''SOCKS5 is not enabled on the server''),
         Accept None, Go [DiscardRequests], Go [HandleTCPStream ''127.0.0.1:9002'' None]],
        example_server\<lparr>connStats := 1\<rparr>)"
proof -
  let ?socks = "channel_open ''skeleton socks'' None"
  let ?tcp = "channel_open ''skeleton tcp 9002'' None"
  let ?epd = "\<lparr>Role = ChannelEndpointRoleSkeleton, Type = ChannelEndpointTypeSocks, Path = []\<rparr>"
  have h1: "\<not> socksServer example_server"
    by (simp add: example_server_def)
  have h2: "json_Unmarshal example_lib (ExtraData ?socks) = Inr ?epd"
    by (simp add: example_lib_def example_Unmarshal_def channel_open_def)
  have h3: "Role ?epd = ChannelEndpointRoleSkeleton" and h4: "Type ?epd = ChannelEndpointTypeSocks"
    by simp_all
  have g1: "json_Unmarshal example_lib (ExtraData ?tcp) = Inr (SkeletonDescriptor route_9002)"
    by (simp add: example_lib_def example_Unmarshal_def channel_open_def)
  have g2: "Role (SkeletonDescriptor route_9002) = ChannelEndpointRoleSkeleton"
    and g3: "Type (SkeletonDescriptor route_9002) = ChannelEndpointTypeTCP"
    and g4: "Path (SkeletonDescriptor route_9002) = ''127.0.0.1:9002''"
    by (simp_all add: route_9002_def)
  have g5: "accept_err ?tcp = None" and g6: "serve_err ?tcp = None"
    by (simp_all add: channel_open_def)
  have g7: "connStats example_server = 0"
    by (simp add: example_server_def)
  from socks_rejected_session_survives[OF h1 h2 h3 h4, of "[]" ?tcp "SkeletonDescriptor route_9002"]
    g1 g2 g3 g5
  have "Server_handleSSHChannels example_lib example_server [?socks, ?tcp] =
       ([Reject Prohibited (Str ''SOCKS5 is not enabled on the server''),
         Accept None, Go [DiscardRequests],
         Go [HandleTCPStream (Path (SkeletonDescriptor route_9002)) (serve_err ?tcp)]],
        example_server\<lparr>connStats := connStats example_server + 1\<rparr>)"
    by blast
  then show ?thesis using h1 h2 g1 g2 g3 g5 by (simp add: g4 g6 g7)
qed

section \<open>Running the handlers on the concrete environment\<close>

lemmas example_defs =
  example_lib_def example_server_def example_env_def example_DecodeConfig_def
  example_Unmarshal_def config_request_def channel_open_def alice_def alice_conn_def
  route_9001_def route_9002_def route_reverse_def

lemmas table_defs = Get_def Set_def Del_def Len_def

text \<open>
  In every run of a channel-open handler the dial comes after the channel was accepted.
\<close>

lemma dial_after_accept:
  "SSHSession_handleSSHNewChannel lib lenv ch = (evs, r) \<Longrightarrow> DialAndServe epd e \<in> set evs \<Longrightarrow>
     evs = [Accept None, Go [DiscardRequests], DialAndServe epd e]"
  by (auto simp: SSHSession_handleSSHNewChannel_def Let_def split: sum.splits option.splits)

lemma stream_after_accept:
  "Server_handleSSHChannel lib s ch = (evs, s') \<Longrightarrow> Go [HandleTCPStream p e] \<in> set evs \<Longrightarrow>
     evs = [Accept None, Go [DiscardRequests], Go [HandleTCPStream p e]]"
  by (auto simp: Server_handleSSHChannel_def Let_def handleSocksStream_def
      split: sum.splits option.splits if_splits)

text \<open>
  C4. The claim asks that the local dial succeed before the channel open is accepted.
  The handlers do the opposite. On a channel open with a TCP skeleton descriptor whose
  target refuses the connection, the proxy session accepts the channel and only then
  runs \<^verbatim>\<open>DialAndServe\<close>, which fails; the server's loop accepts the channel and only
  then starts \<^verbatim>\<open>HandleTCPStream\<close>, which fails.
\<close>

theorem accepted_before_dial_fails:
  "ProxySSHSession_handleSSHNewChannel example_lib example_server
     (channel_open ''skeleton tcp 9002'' (Some (Str ''connection refused''))) =
     ([Accept None, Go [DiscardRequests],
       DialAndServe (SkeletonDescriptor route_9002) (Some (Str ''connection refused''))],
      Some (Str ''connection refused''))
   \<and> Server_handleSSHChannel example_lib example_server
     (channel_open ''skeleton tcp 9002'' (Some (Str ''connection refused''))) =
     ([Accept None, Go [DiscardRequests],
       Go [HandleTCPStream ''127.0.0.1:9002'' (Some (Str ''connection refused''))]],
      example_server\<lparr>connStats := 1\<rparr>)"
  by (simp add: ProxySSHSession_handleSSHNewChannel_def SSHSession_handleSSHNewChannel_def
      Server_handleSSHChannel_def ProxySSHSession_env_def example_defs Let_def)

text \<open>
  The channel-open handlers do not depend on the users or on the user-session map.
\<close>

lemma channel_open_ignores_users:
  "fst (Server_handleSSHChannel lib (s\<lparr>users := us, sessions := ss\<rparr>) ch)
     = fst (Server_handleSSHChannel lib s ch)"
  "ProxySSHSession_handleSSHNewChannel lib (s\<lparr>users := us, sessions := ss\<rparr>) ch
     = ProxySSHSession_handleSSHNewChannel lib s ch"
  by (simp_all add: Server_handleSSHChannel_def ProxySSHSession_handleSSHNewChannel_def
      ProxySSHSession_env_def Let_def split: sum.splits option.splits)

text \<open>
  C1. The claim asks that no channel open on a route the user has no access to be
  accepted. The configuration step enforces it; the channel-open handlers do not look
  at the user. Here alice, whose only regex does not match the route to port 9002,
  logs in, configures the route to port 9001 that she may use, and then opens a channel
  with the skeleton descriptor of the route to port 9002: the server's loop and the
  proxy session both accept it and dial.
\<close>

theorem unauthorized_route_channel_accepted:
  "\<not> HasAccess alice (chd_String example_lib route_9002)
   \<and> authUser example_server alice_conn ''secret'' =
       (None, example_server\<lparr>sessions := [(''sid-1'', alice)]\<rparr>)
   \<and> handleWebsocket example_lib (example_server\<lparr>sessions := [(''sid-1'', alice)]\<rparr>)
        (example_env (config_request ''route 9001'') [channel_open ''skeleton tcp 9002'' None]) =
       ([Upgrade None, NewServerConn None, Reply True None, Go [],
         Go [Accept None, Go [DiscardRequests], Go [HandleTCPStream ''127.0.0.1:9002'' None]],
         SSHConn_Wait, Cancel],
        example_server\<lparr>sessCount := 1, connStats := 1\<rparr>)
   \<and> ProxySSHSession_Run example_lib (example_server\<lparr>sessions := [(''sid-1'', alice)]\<rparr>)
        (example_env (config_request ''route 9001'') [channel_open ''skeleton tcp 9002'' None]) =
       ([NewServerConn None, Reply True None, Go [],
         Go [Go [Accept None, Go [DiscardRequests],
                 DialAndServe (SkeletonDescriptor route_9002) None]],
         SSHConn_Wait, Cancel, SSHConn_Close, Close_done],
        Return None, example_server)"
proof -
  have a: "\<not> HasAccess alice (chd_String example_lib route_9002)"
    by (simp add: HasAccess_def strings_HasPrefix_def example_defs)
  have b: "authUser example_server alice_conn ''secret'' =
       (None, example_server\<lparr>sessions := [(''sid-1'', alice)]\<rparr>)"
    by (simp add: authUser_def table_defs example_server_def alice_conn_def alice_def)
  have c: "handleWebsocket example_lib (example_server\<lparr>sessions := [(''sid-1'', alice)]\<rparr>)
        (example_env (config_request ''route 9001'') [channel_open ''skeleton tcp 9002'' None]) =
       ([Upgrade None, NewServerConn None, Reply True None, Go [],
         Go [Accept None, Go [DiscardRequests], Go [HandleTCPStream ''127.0.0.1:9002'' None]],
         SSHConn_Wait, Cancel],
        example_server\<lparr>sessCount := 1, connStats := 1\<rparr>)"
    by (simp add: handleWebsocket_def pullUser_def table_defs deniedRoute_def HasAccess_def
        strings_HasPrefix_def versionLog_def Server_handleSSHChannel_def
        Server_handleSSHRequests_def example_defs Let_def)
  have e: "ProxySSHSession_Run example_lib (example_server\<lparr>sessions := [(''sid-1'', alice)]\<rparr>)
        (example_env (config_request ''route 9001'') [channel_open ''skeleton tcp 9002'' None]) =
       ([NewServerConn None, Reply True None, Go [],
         Go [Go [Accept None, Go [DiscardRequests],
                 DialAndServe (SkeletonDescriptor route_9002) None]],
         SSHConn_Wait, Cancel, SSHConn_Close, Close_done],
        Return None, example_server)"
    by (simp add: ProxySSHSession_Run_def runWithSSHConn_def pullUser_def table_defs
        deniedRoute_def HasAccess_def strings_HasPrefix_def versionLog_def
        ProxySSHSession_handleSSHNewChannel_def SSHSession_handleSSHNewChannel_def
        ProxySSHSession_env_def ProxySSHSession_handleSSHRequests_def
        ProxySSHSession_handleSSHChannels_def example_defs Let_def)
  from a b c e show ?thesis by blast
qed

section \<open>The configuration step\<close>

lemma find_denied:
  "chd \<in> set cds \<Longrightarrow> \<not> HasAccess u (chd_String lib chd) \<Longrightarrow>
     \<exists>chd'. deniedRoute lib (Some u) cds = Some chd' \<and> \<not> HasAccess u (chd_String lib chd')"
  by (cases "find (\<lambda>chd. \<not> HasAccess u (chd_String lib chd)) cds")
     (auto simp: deniedRoute_def find_None_iff find_Some_iff)

text \<open>
  A configuration that names a route the session's user has no access to is answered
  with failure, by the server's handler and by the proxy session; no stub listener is
  started and no channel open is served.
\<close>

lemma handleWebsocket_denied_route:
  assumes "upgrade_err env = None" and "handshake env = Inr sid"
    and "pullUser (s\<lparr>sessCount := sessCount s + 1\<rparr>) sid = (Some u, s1)"
    and "first_request env = Received (Some r)" and "req_Type r = ''config''"
    and "DecodeConfig lib (Payload r) = Inr c"
    and "chd \<in> set (ChannelDescriptors c)" and "\<not> HasAccess u (chd_String lib chd)"
  shows "\<exists>m. handleWebsocket lib s env =
           ([Upgrade None, NewServerConn None]
              @ versionLog ''Client version (%s) differs from server version (%s)'' lib c
              @ [Reply False (Some m)], s1)"
proof -
  from find_denied[OF assms(7,8)] obtain chd' where
    "deniedRoute lib (Some u) (ChannelDescriptors c) = Some chd'" by blast
  with assms(1-6) show ?thesis
    by (simp add: handleWebsocket_def Let_def)
qed

lemma runWithSSHConn_denied_route:
  assumes "pullUser s sid = (Some u, s1)"
    and "first_request env = Received (Some r)" and "req_Type r = ''config''"
    and "DecodeConfig lib (Payload r) = Inr c"
    and "chd \<in> set (ChannelDescriptors c)" and "\<not> HasAccess u (chd_String lib chd)"
  shows "\<exists>m. runWithSSHConn lib s env sid =
           (versionLog ''WARNING: Chisel Client version (%s) differs from server version (%s)'' lib c
              @ [Reply False (Some m), Cancel], Return (Some m), s1)"
proof -
  from find_denied[OF assms(5,6)] obtain chd' where
    "deniedRoute lib (Some u) (ChannelDescriptors c) = Some chd'" by blast
  with assms(1-4) show ?thesis
    by (simp add: runWithSSHConn_def Let_def failed_def)
qed

text \<open>
  The proxy session on a configuration with a reverse route while reverse tunnelling is
  disabled: the reply is failure with the message "Reverse port forwarding not enabled on
  server", no stub listener is started, and \<^verbatim>\<open>Run\<close> closes the SSH connection.
\<close>

lemma Run_reverse_denied:
  assumes "handshake env = Inr sid" and "\<not> reverseOk s"
    and "first_request env = Received (Some r)" and "req_Type r = ''config''"
    and "DecodeConfig lib (Payload r) = Inr c"
    and "chd \<in> set (ChannelDescriptors c)" and "Reverse chd"
  shows "ProxySSHSession_Run lib s env =
           (NewServerConn None
              # versionLog ''WARNING: Chisel Client version (%s) differs from server version (%s)'' lib c
              @ [Reply False (Some (DebugErrorf ''Reverse port forwarding not enabled on server'' [])),
                 Cancel, SSHConn_Close, Close_done],
            Return (Some (DebugErrorf ''Reverse port forwarding not enabled on server'' [])),
            snd (pullUser s sid))"
proof -
  obtain user s1 where p: "pullUser s sid = (user, s1)"
    by (cases "pullUser s sid")
  then have "reverseOk s1 = reverseOk s"
    by (auto simp: pullUser_def split: if_splits)
  with assms(2,6,7)
  have "find (\<lambda>chd. Reverse chd \<and> \<not> reverseOk s1) (ChannelDescriptors c) \<noteq> None"
    by (auto simp: find_None_iff)
  with assms(1,3,4,5) p show ?thesis
    by (simp add: ProxySSHSession_Run_def runWithSSHConn_def Let_def failed_def)
qed

lemma handleWebsocket_reverse_denied:
  assumes "upgrade_err env = None" and "handshake env = Inr sid" and "\<not> reverseOk s"
    and "first_request env = Received (Some r)" and "req_Type r = ''config''"
    and "DecodeConfig lib (Payload r) = Inr c"
    and "chd \<in> set (ChannelDescriptors c)" and "Reverse chd"
  shows "handleWebsocket lib s env =
           ([Upgrade None, NewServerConn None]
              @ versionLog ''Client version (%s) differs from server version (%s)'' lib c
              @ [Reply False (Some (Errorf ''Reverse port forwaring not enabled on server'' []))],
            snd (pullUser (s\<lparr>sessCount := sessCount s + 1\<rparr>) sid))"
proof -
  obtain user s1 where p: "pullUser (s\<lparr>sessCount := sessCount s + 1\<rparr>) sid = (user, s1)"
    by (cases "pullUser (s\<lparr>sessCount := sessCount s + 1\<rparr>) sid")
  then have "reverseOk s1 = reverseOk s"
    by (auto simp: pullUser_def split: if_splits)
  with assms(3,7,8)
  have "find (\<lambda>chd. Reverse chd \<and> \<not> reverseOk s1) (ChannelDescriptors c) \<noteq> None"
    by (auto simp: find_None_iff)
  with assms(1,2,4,5,6) p show ?thesis
    by (simp add: handleWebsocket_def Let_def)
qed

text \<open>On neither path is a stub listener started.\<close>

lemma versionLog_no_listener: "\<not> list_ex is_Proxy_Start (versionLog f lib c)"
  by (simp add: versionLog_def)

lemma reverse_denied_no_listener:
  assumes "upgrade_err env = None" and "handshake env = Inr sid" and "\<not> reverseOk s"
    and "first_request env = Received (Some r)" and "req_Type r = ''config''"
    and "DecodeConfig lib (Payload r) = Inr c"
    and "chd \<in> set (ChannelDescriptors c)" and "Reverse chd"
  shows "\<not> list_ex is_Proxy_Start (trace (fst (ProxySSHSession_Run lib s env)))"
    and "\<not> list_ex is_Proxy_Start (trace (fst (handleWebsocket lib s env)))"
  using Run_reverse_denied[OF assms(2-8)] handleWebsocket_reverse_denied[OF assms]
    versionLog_no_listener[of _ lib c]
  by (simp_all add: trace_def versionLog_def)

text \<open>
  C2. The claim asks for a failure reply with the message "Reverse port forwarding not
  enabled on server" and a torn-down session. The proxy session does that
  (\<open>Run_reverse_denied\<close>). The server's own handler, on a configuration with a reverse
  route while reverse tunnelling is disabled, replies with a misspelt message
  ("forwaring") and returns without closing the SSH connection; it starts no stub
  listener.
\<close>

theorem reverse_denied_reply_misspelt:
  "handleWebsocket example_lib example_server (example_env (config_request ''reverse route'') []) =
     ([Upgrade None, NewServerConn None,
       Reply False (Some (Errorf ''Reverse port forwaring not enabled on server'' []))],
      example_server\<lparr>sessCount := 1\<rparr>)
   \<and> Errorf ''Reverse port forwaring not enabled on server'' []
       \<noteq> Errorf ''Reverse port forwarding not enabled on server'' []"
  by (simp add: handleWebsocket_def pullUser_def table_defs versionLog_def example_defs Let_def)

text \<open>
  C3, as the claim states it, fails when no request arrives in time: there is no request
  to answer, and neither the proxy session nor the server's handler sends a reply.
\<close>

theorem config_timeout_sends_no_reply:
  "\<not> list_ex is_Reply (trace (fst (ProxySSHSession_Run example_lib example_server
        (example_env (Expired (Str ''context deadline exceeded'')) []))))
   \<and> \<not> list_ex is_Reply (trace (fst (handleWebsocket example_lib example_server
        (example_env (Expired (Str ''context deadline exceeded'')) []))))"
  by (simp add: ProxySSHSession_Run_def runWithSSHConn_def handleWebsocket_def pullUser_def
      table_defs trace_def example_defs Let_def)

text \<open>
  C3, amended. When the wait for the first request ends without one, no reply is sent
  and the SSH connection is closed. When the first request is not of type "config", or
  its payload does not decode, that request is answered with failure; the proxy session
  then closes the SSH connection. In all three cases no channel open is accepted.
\<close>

theorem config_step_failures:
  assumes "upgrade_err env = None" and "handshake env = Inr sid"
  shows \<open>(first_request env = Expired e \<longrightarrow>
            ProxySSHSession_Run lib s env =
              ([NewServerConn None, Cancel, SSHConn_Close, Close_done],
               Return (Some (DebugErrorf ''receiveSSHRequest failed: %s''
                              [DebugErrorf ''SSH request not received: %s'' [e]])),
               snd (pullUser s sid))
          \<and> fst (handleWebsocket lib s env) = [Upgrade None, NewServerConn None, SSHConn_Close])
       \<and> (first_request env = Received (Some r) \<and> req_Type r \<noteq> ''config'' \<longrightarrow>
            fst (ProxySSHSession_Run lib s env) =
              [NewServerConn None,
               Reply False (Some (DebugErrorf ''Expecting "config" request, got "%s"''
                                   [Str (req_Type r)])),
               Cancel, SSHConn_Close, Close_done]
          \<and> Reply False (Some (Errorf ''expecting config request'' []))
               \<in> set (fst (handleWebsocket lib s env))
          \<and> \<not> list_ex is_Accept (trace (fst (handleWebsocket lib s env))))
       \<and> (first_request env = Received (Some r) \<and> req_Type r = ''config''
            \<and> DecodeConfig lib (Payload r) = Inl d \<longrightarrow>
            fst (ProxySSHSession_Run lib s env) =
              [NewServerConn None,
               Reply False (Some (DebugErrorf ''Invalid session config request encoding: %s'' [d])),
               Cancel, SSHConn_Close, Close_done]
          \<and> Reply False (Some (Errorf ''invalid config'' []))
               \<in> set (fst (handleWebsocket lib s env))
          \<and> \<not> list_ex is_Accept (trace (fst (handleWebsocket lib s env))))\<close>
  using assms
  by (simp add: ProxySSHSession_Run_def runWithSSHConn_def handleWebsocket_def failed_def
      trace_def Let_def split: prod.splits)

theorem config_step_failures_witness:
  \<open>upgrade_err (example_env (Expired (Str ''context deadline exceeded'')) []) = None
   \<and> handshake (example_env (Expired (Str ''context deadline exceeded'')) []) = Inr ''sid-1''
   \<and> first_request (example_env (Expired (Str ''context deadline exceeded'')) []) =
       Expired (Str ''context deadline exceeded'')
   \<and> fst (ProxySSHSession_Run example_lib example_server
         (example_env (Expired (Str ''context deadline exceeded'')) [])) =
       [NewServerConn None, Cancel, SSHConn_Close, Close_done]
   \<and> fst (handleWebsocket example_lib example_server
         (example_env (Expired (Str ''context deadline exceeded'')) [])) =
       [Upgrade None, NewServerConn None, SSHConn_Close]
   \<and> first_request (example_env (Received (Some \<lparr>req_Type = ''ping'', Payload = []\<rparr>)) []) =
       Received (Some \<lparr>req_Type = ''ping'', Payload = []\<rparr>)
   \<and> req_Type \<lparr>req_Type = ''ping'', Payload = []\<rparr> \<noteq> ''config''
   \<and> fst (ProxySSHSession_Run example_lib example_server
         (example_env (Received (Some \<lparr>req_Type = ''ping'', Payload = []\<rparr>)) [])) =
       [NewServerConn None,
        Reply False (Some (DebugErrorf ''Expecting "config" request, got "%s"'' [Str ''ping''])),
        Cancel, SSHConn_Close, Close_done]
   \<and> first_request (example_env (config_request ''garbage'') []) =
       Received (Some \<lparr>req_Type = ''config'', Payload = ''garbage''\<rparr>)
   \<and> DecodeConfig example_lib (Payload \<lparr>req_Type = ''config'', Payload = ''garbage''\<rparr>) =
       Inl (Str ''unexpected EOF'')
   \<and> fst (ProxySSHSession_Run example_lib example_server
         (example_env (config_request ''garbage'') [])) =
       [NewServerConn None,
        Reply False (Some (DebugErrorf ''Invalid session config request encoding: %s''
                            [Str ''unexpected EOF''])),
        Cancel, SSHConn_Close, Close_done]
   \<and> Reply False (Some (Errorf ''invalid config'' []))
       \<in> set (fst (handleWebsocket example_lib example_server
                     (example_env (config_request ''garbage'') [])))\<close>
proof -
  let ?e1 = "example_env (Expired (Str ''context deadline exceeded'')) []"
  let ?ping = "\<lparr>req_Type = ''ping'', Payload = []\<rparr>"
  let ?e2 = "example_env (Received (Some ?ping)) []"
  let ?cfg = "\<lparr>req_Type = ''config'', Payload = ''garbage''\<rparr>"
  let ?e3 = "example_env (config_request ''garbage'') []"
  have u: "upgrade_err (example_env f chans) = None"
    and h: "handshake (example_env f chans) = Inr ''sid-1''"
    and f: "first_request (example_env f chans) = f" for f chans
    by (simp_all add: example_env_def)
  have f3: "first_request ?e3 = Received (Some ?cfg)"
    by (simp add: example_env_def config_request_def)
  have p: "req_Type ?ping \<noteq> ''config''" and c: "req_Type ?cfg = ''config''"
    by simp_all
  have d: "DecodeConfig example_lib (Payload ?cfg) = Inl (Str ''unexpected EOF'')"
    by (simp add: example_lib_def example_DecodeConfig_def)
  note t1 = config_step_failures[where env = ?e1 and lib = example_lib and s = example_server
      and e = "Str ''context deadline exceeded''", OF u h]
  note t2 = config_step_failures[where env = ?e2 and lib = example_lib and s = example_server
      and r = ?ping, OF u h]
  note t3 = config_step_failures[where env = ?e3 and lib = example_lib and s = example_server
      and r = ?cfg and d = "Str ''unexpected EOF''", OF u h]
  show ?thesis
    using t1 t2 t3 u h f f3 p c d by simp
qed

section \<open>The password callback and the user-session map\<close>

lemma Get_Set: "Get (Set t k v) k = Some v"
  by (simp add: Get_def Set_def update_conv)

lemma Get_Del: "Get (Del t k) k = None"
  by (simp add: Get_def Del_def delete_conv)

text \<open>
  What the password callback computes: with no users it accepts everything and records
  nothing; with users it accepts exactly a known name with the stored password, records
  that user under the session id on acceptance, and leaves the map alone on refusal.
\<close>

lemma authUser_no_users:
  "Len (users s) = 0 \<Longrightarrow> authUser s c password = (None, s)"
  by (simp add: authUser_def)

lemma authUser_accepts_iff:
  "0 < Len (users s) \<Longrightarrow>
     fst (authUser s c password) = None
       \<longleftrightarrow> (\<exists>u. Get (users s) (conn_User c) = Some u \<and> Pass u = password)"
  by (auto simp: authUser_def Let_def split: option.splits)

lemma authUser_records:
  "0 < Len (users s) \<Longrightarrow> authUser s c password = (None, s1) \<Longrightarrow>
     \<exists>u. Get (users s) (conn_User c) = Some u
         \<and> s1 = s\<lparr>sessions := Set (sessions s) (conn_SessionID c) u\<rparr>
         \<and> Get (sessions s1) (conn_SessionID c) = Some u"
  by (auto simp: authUser_def Let_def Get_Set split: option.splits if_splits)

lemma authUser_refusal_keeps_state:
  "authUser s c password = (Some err, s1) \<Longrightarrow> s1 = s"
  by (auto simp: authUser_def Let_def split: option.splits if_splits)

lemma authUser_users: "users (snd (authUser s c password)) = users s"
  by (auto simp: authUser_def Let_def split: option.splits)

lemma pullUser_removes:
  "0 < Len (users s) \<Longrightarrow> Get (sessions (snd (pullUser s sid))) sid = None"
  by (simp add: pullUser_def Get_Del)

lemma Server_handleSSHChannel_sessions:
  "Server_handleSSHChannel lib s ch = (ev, s1) \<Longrightarrow> sessions s1 = sessions s"
  by (auto simp: Server_handleSSHChannel_def Let_def split: sum.splits option.splits if_splits)

lemma Server_handleSSHChannels_sessions:
  "Server_handleSSHChannels lib s chans = (evs, s2) \<Longrightarrow> sessions s2 = sessions s"
proof (induction chans arbitrary: s evs s2)
  case Nil
  then show ?case by simp
next
  case (Cons ch chans)
  obtain ev s1 where a: "Server_handleSSHChannel lib s ch = (ev, s1)"
    by (cases "Server_handleSSHChannel lib s ch")
  obtain evs' s' where b: "Server_handleSSHChannels lib s1 chans = (evs', s')"
    by (cases "Server_handleSSHChannels lib s1 chans")
  from Cons.prems a b have "s2 = s'" by simp
  with Cons.IH[OF b] Server_handleSSHChannel_sessions[OF a] show ?case by simp
qed

lemma runWithSSHConn_state:
  "runWithSSHConn lib s env sid = (ev, r, s1) \<Longrightarrow> s1 = snd (pullUser s sid)"
  by (auto simp: runWithSSHConn_def failed_def Let_def
      split: prod.splits recv.splits option.splits sum.splits if_splits)

lemma Run_state:
  "handshake env = Inr sid \<Longrightarrow> ProxySSHSession_Run lib s env = (ev, r, s1) \<Longrightarrow>
     s1 = snd (pullUser s sid)"
  by (auto simp: ProxySSHSession_Run_def split: prod.splits ret.splits
      dest: runWithSSHConn_state)

lemma handleWebsocket_sessions:
  "upgrade_err env = None \<Longrightarrow> handshake env = Inr sid \<Longrightarrow>
   handleWebsocket lib s env = (ev, s2) \<Longrightarrow>
     sessions s2 = sessions (snd (pullUser (s\<lparr>sessCount := sessCount s + 1\<rparr>) sid))"
  by (auto simp: handleWebsocket_def Let_def
      split: prod.splits recv.splits option.splits sum.splits if_splits
      dest: Server_handleSSHChannels_sessions)

lemma pullUser_clears:
  assumes "users s1 = users s" and "0 < Len (users s) \<or> Get (sessions s1) sid = None"
  shows "Get (sessions (snd (pullUser s1 sid))) sid = None"
  using assms by (auto simp: pullUser_def Get_Del)

text \<open>
  C9. The entry that the password callback puts into the user-session map for a
  session is taken out by that session at its configuration step, in the proxy session
  and in the server's handler alike: when users are configured the callback's entry is
  there after the handshake, the session reads exactly that entry and deletes it, and
  whatever the session does afterwards the map holds no entry for its id when it ends.
  (With no users configured the callback inserts nothing.)
\<close>

theorem session_entry_removed:
  assumes "authUser s c password = (None, s1)"
    and "Get (sessions s) (conn_SessionID c) = None"
    and "upgrade_err env = None" and "handshake env = Inr (conn_SessionID c)"
  shows "(0 < Len (users s) \<longrightarrow>
            Get (sessions s1) (conn_SessionID c) = Get (users s) (conn_User c)
          \<and> Get (sessions s1) (conn_SessionID c) \<noteq> None
          \<and> pullUser s1 (conn_SessionID c) =
              (Get (sessions s1) (conn_SessionID c),
               s1\<lparr>sessions := Del (sessions s1) (conn_SessionID c)\<rparr>))
       \<and> Get (sessions (snd (snd (ProxySSHSession_Run lib s1 env)))) (conn_SessionID c) = None
       \<and> Get (sessions (snd (handleWebsocket lib s1 env))) (conn_SessionID c) = None"
proof -
  let ?sid = "conn_SessionID c"
  have u: "users s1 = users s"
    using assms(1) authUser_users[of s c password] by simp
  have ins: "Get (sessions s1) ?sid = Get (users s) (conn_User c) \<and> Get (sessions s1) ?sid \<noteq> None"
    if "0 < Len (users s)"
    using authUser_records[OF that assms(1)] by auto
  have fresh: "0 < Len (users s) \<or> Get (sessions s1) ?sid = None"
  proof (cases "Len (users s) = 0")
    case True
    with assms(1) authUser_no_users[of s c password] have "s1 = s" by simp
    with assms(2) show ?thesis by simp
  next
    case False
    then show ?thesis by simp
  qed
  have pull: "pullUser s1 ?sid = (Get (sessions s1) ?sid, s1\<lparr>sessions := Del (sessions s1) ?sid\<rparr>)"
    if "0 < Len (users s)"
    using that u by (simp add: pullUser_def)
  have run: "Get (sessions (snd (snd (ProxySSHSession_Run lib s1 env)))) ?sid = None"
  proof -
    obtain ev r s2 where a: "ProxySSHSession_Run lib s1 env = (ev, r, s2)"
      by (cases "ProxySSHSession_Run lib s1 env")
    from Run_state[OF assms(4) a] pullUser_clears[OF u fresh] a show ?thesis by simp
  qed
  have ws: "Get (sessions (snd (handleWebsocket lib s1 env))) ?sid = None"
  proof -
    obtain ev s2 where a: "handleWebsocket lib s1 env = (ev, s2)"
      by (cases "handleWebsocket lib s1 env")
    have "users (s1\<lparr>sessCount := sessCount s1 + 1\<rparr>) = users s" using u by simp
    moreover have "0 < Len (users s) \<or> Get (sessions (s1\<lparr>sessCount := sessCount s1 + 1\<rparr>)) ?sid = None"
      using fresh by simp
    ultimately have "Get (sessions (snd (pullUser (s1\<lparr>sessCount := sessCount s1 + 1\<rparr>) ?sid))) ?sid = None"
      by (rule pullUser_clears)
    with handleWebsocket_sessions[OF assms(3,4) a] a show ?thesis by simp
  qed
  from ins pull run ws show ?thesis by blast
qed

theorem session_entry_removed_witness:
  "authUser example_server alice_conn ''secret'' =
     (None, example_server\<lparr>sessions := [(''sid-1'', alice)]\<rparr>)
   \<and> Get (sessions example_server) (conn_SessionID alice_conn) = None
   \<and> upgrade_err (example_env (config_request ''route 9001'') []) = None
   \<and> handshake (example_env (config_request ''route 9001'') []) = Inr (conn_SessionID alice_conn)
   \<and> 0 < Len (users example_server)
   \<and> Get (sessions (example_server\<lparr>sessions := [(''sid-1'', alice)]\<rparr>)) ''sid-1'' = Some alice
   \<and> Get (sessions (snd (snd (ProxySSHSession_Run example_lib
          (example_server\<lparr>sessions := [(''sid-1'', alice)]\<rparr>)
          (example_env (config_request ''route 9001'') []))))) ''sid-1'' = None
   \<and> Get (sessions (snd (handleWebsocket example_lib
          (example_server\<lparr>sessions := [(''sid-1'', alice)]\<rparr>)
          (example_env (config_request ''route 9001'') [])))) ''sid-1'' = None"
proof -
  let ?env = "example_env (config_request ''route 9001'') []"
  have a: "authUser example_server alice_conn ''secret'' =
     (None, example_server\<lparr>sessions := [(''sid-1'', alice)]\<rparr>)"
    by (simp add: authUser_def table_defs example_server_def alice_conn_def alice_def)
  have b: "Get (sessions example_server) (conn_SessionID alice_conn) = None"
    by (simp add: table_defs example_server_def)
  have c: "upgrade_err ?env = None" and d: "handshake ?env = Inr (conn_SessionID alice_conn)"
    by (simp_all add: example_env_def alice_conn_def)
  have e: "0 < Len (users example_server)"
    by (simp add: table_defs example_server_def)
  have f: "conn_SessionID alice_conn = ''sid-1''" and g: "conn_User alice_conn = ''alice''"
    by (simp_all add: alice_conn_def)
  have h: "Get (users example_server) ''alice'' = Some alice"
    by (simp add: table_defs example_server_def)
  from session_entry_removed[OF a b c d, of example_lib] e f g h
  show ?thesis using a b c d by simp
qed

end
